theory Spec2Isabelle
  imports Complex_Main
begin

section \<open>Errors, tensors and the library primitives\<close>

text \<open>
  The module \<^verbatim>\<open>pyrad/fields/modules/mlp.py\<close> raises in two ways: an \<^verbatim>\<open>assert\<close> of its own
  fails (an invalid configuration), or the tensor library rejects the shape of an operand
  of a linear unit or of a concatenation.
\<close>

datatype error = AssertionError | ShapeError

text \<open>
  An entry of a tensor is a number or the floating-point value NaN.  Arithmetic with NaN
  gives NaN, and NaN compares false with every number, so it is not non-negative.
  Rounding and the infinities of the floating-point formats are outside this development.
\<close>

datatype scalar = Num real | NaN

fun fadd :: "scalar \<Rightarrow> scalar \<Rightarrow> scalar" where
  "fadd (Num a) (Num b) = Num (a + b)"
| "fadd _ _ = NaN"

fun fmul :: "scalar \<Rightarrow> scalar \<Rightarrow> scalar" where
  "fmul (Num a) (Num b) = Num (a * b)"
| "fmul _ _ = NaN"

definition fsum :: "scalar list \<Rightarrow> scalar" where
  "fsum xs = foldr fadd xs (Num 0)"

fun nonneg :: "scalar \<Rightarrow> bool" where
  "nonneg (Num v) = (0 \<le> v)"
| "nonneg NaN = False"

text \<open>
  A tensor is its shape and its entries in row-major order.  The shape is kept beside the
  entries because a tensor of shape \<open>[0, d]\<close> has no entry and still a trailing dimension.
\<close>

record tensor =
  shape :: "nat list"
  data :: "scalar list"

definition wf_tensor :: "tensor \<Rightarrow> bool" where
  "wf_tensor t \<longleftrightarrow> length (data t) = prod_list (shape t)"

text \<open>Row \<open>r\<close> of the entries seen as a matrix with \<open>d\<close> columns (the trailing axis).\<close>

definition row :: "nat \<Rightarrow> scalar list \<Rightarrow> nat \<Rightarrow> scalar list" where
  "row d xs r = take d (drop (r * d) xs)"

text \<open>
  A linear unit (\<^verbatim>\<open>nn.Linear(in_features, out_features)\<close>) holds its two declared sizes and
  its parameters.  The parameters are functions of the indices, so that the declared sizes
  alone fix the shape of the weight matrix (\<open>out_features \<times> in_features\<close>) and of the
  bias vector.  The library draws the initial parameter values at random; here they are
  supplied from outside, one pair per position in the stack.
\<close>

record linear =
  in_features :: int
  out_features :: int
  weight :: "nat \<Rightarrow> nat \<Rightarrow> scalar"
  bias :: "nat \<Rightarrow> scalar"

type_synonym params = "(nat \<Rightarrow> nat \<Rightarrow> scalar) \<times> (nat \<Rightarrow> scalar)"

definition Linear :: "params \<Rightarrow> int \<Rightarrow> int \<Rightarrow> linear" where
  "Linear p n_in n_out =
     \<lparr>in_features = n_in, out_features = n_out, weight = fst p, bias = snd p\<rparr>"

definition dims :: "linear \<Rightarrow> int \<times> int" where
  "dims l = (in_features l, out_features l)"

text \<open>The affine map of a unit on one vector: \<open>y\<^sub>j = (\<Sum>k. W\<^sub>j\<^sub>k * v\<^sub>k) + b\<^sub>j\<close>.\<close>

definition affine :: "linear \<Rightarrow> scalar list \<Rightarrow> scalar list" where
  "affine l v =
     map (\<lambda>j. fadd (fsum (map (\<lambda>k. fmul (weight l j k) (v ! k)) [0..<nat (in_features l)]))
                  (bias l j))
       [0..<nat (out_features l)]"

text \<open>
  Calling a unit on a tensor applies the affine map along the trailing axis, batched over
  the leading axes.  The library raises when the tensor has no axis or when its trailing
  dimension is not \<open>in_features\<close> (also for an empty batch).
\<close>

definition linear_apply :: "linear \<Rightarrow> tensor \<Rightarrow> error + tensor" where
  "linear_apply l t =
     (if shape t = [] \<or> int (last (shape t)) \<noteq> in_features l then Inl ShapeError
      else Inr \<lparr>shape = butlast (shape t) @ [nat (out_features l)],
                data = concat (map (\<lambda>r. affine l (row (last (shape t)) (data t) r))
                                 [0..<prod_list (butlast (shape t))])\<rparr>)"

text \<open>
  \<^verbatim>\<open>torch.cat([a, b], -1)\<close>: both operands need an axis and the same leading dimensions; the
  trailing dimensions add up, and each row of the result is the row of \<open>a\<close> followed by
  the row of \<open>b\<close>.  (The library's exemption for a one-axis tensor of shape \<open>[0]\<close> gives the
  same result as this definition whenever both operands have one axis, and in
  \<open>forward\<close> both operands always have the same number of axes.)
\<close>

definition cat_last :: "tensor \<Rightarrow> tensor \<Rightarrow> error + tensor" where
  "cat_last a b =
     (if shape a = [] \<or> shape b = [] \<or> butlast (shape a) \<noteq> butlast (shape b)
      then Inl ShapeError
      else Inr \<lparr>shape = butlast (shape a) @ [last (shape a) + last (shape b)],
                data = concat (map (\<lambda>r. row (last (shape a)) (data a) r
                                          @ row (last (shape b)) (data b) r)
                                 [0..<prod_list (butlast (shape a))])\<rparr>)"

text \<open>
  An activation is an element-wise transform; \<open>relu\<close> is the default one.  It sends a
  number to the larger of \<open>0\<close> and that number, and NaN to NaN.
\<close>

definition act_apply :: "(scalar \<Rightarrow> scalar) \<Rightarrow> tensor \<Rightarrow> tensor" where
  "act_apply f t = t\<lparr>data := map f (data t)\<rparr>"

fun relu :: "scalar \<Rightarrow> scalar" where
  "relu (Num v) = Num (max 0 v)"
| "relu NaN = NaN"

section \<open>The class \<open>MLP\<close>\<close>

text \<open>
  The fields of an instance.  \<open>in_dim\<close> and \<open>num_layers\<close> are Python integers that the
  module itself tests and counts with.  \<open>layer_width\<close> and \<open>out_dim\<close> are only handed to
  the library as sizes of a unit, and the library takes no negative size: they are natural
  numbers.  \<open>skip_connections\<close> is a tuple of integers.  An absent activation is \<open>None\<close>.
\<close>

record mlp =
  in_dim :: int
  out_dim :: nat
  num_layers :: int
  layer_width :: nat
  skip_connections :: "int list"
  activation :: "(scalar \<Rightarrow> scalar) option"
  out_activation :: "(scalar \<Rightarrow> scalar) option"
  layers :: "linear list"

text \<open>
  The loop \<^verbatim>\<open>for i in range(self.num_layers - 1)\<close> of \<open>build_nn_modules\<close>, over the
  indices still to visit, with the list \<open>layers\<close> built so far.
\<close>

fun build_hidden :: "(nat \<Rightarrow> params) \<Rightarrow> mlp \<Rightarrow> nat list \<Rightarrow> linear list \<Rightarrow> error + linear list" where
  "build_hidden ps self [] ls = Inr ls"
| "build_hidden ps self (i # is) ls =
     (if i = 0 then
        (if (0::int) \<in> set (skip_connections self) then Inl AssertionError
         else build_hidden ps self is
                (ls @ [Linear (ps (length ls)) (in_dim self) (int (layer_width self))]))
      else if int i \<in> set (skip_connections self) then
        build_hidden ps self is
          (ls @ [Linear (ps (length ls)) (int (layer_width self) + in_dim self)
                   (int (layer_width self))])
      else
        build_hidden ps self is
          (ls @ [Linear (ps (length ls)) (int (layer_width self)) (int (layer_width self))]))"

definition build_nn_modules :: "(nat \<Rightarrow> params) \<Rightarrow> mlp \<Rightarrow> error + linear list" where
  "build_nn_modules ps self =
     (if num_layers self = 1 then
        Inr [Linear (ps 0) (in_dim self) (int (out_dim self))]
      else
        (case build_hidden ps self [0..<nat (num_layers self - 1)] [] of
           Inl e \<Rightarrow> Inl e
         | Inr ls \<Rightarrow>
             Inr (ls @ [Linear (ps (length ls)) (int (layer_width self)) (int (out_dim self))])))"

text \<open>
  The constructor \<^verbatim>\<open>__init__\<close>: the assertion on \<open>in_dim\<close> comes before every other
  field is set and before the stack is built.  Every argument is passed explicitly (the
  defaults of the source are \<open>out_dim = None\<close>, \<open>skip_connections = ()\<close>,
  \<open>activation = ReLU\<close> and \<open>out_activation = None\<close>); \<open>ps\<close> supplies the initial
  parameters of the units.
\<close>

definition MLP_init ::
  "(nat \<Rightarrow> params) \<Rightarrow> int \<Rightarrow> int \<Rightarrow> nat \<Rightarrow> nat option \<Rightarrow> int list \<Rightarrow>
   (scalar \<Rightarrow> scalar) option \<Rightarrow> (scalar \<Rightarrow> scalar) option \<Rightarrow> error + mlp" where
  "MLP_init ps in_d n lw od skips act oact =
     (if \<not> in_d > 0 then Inl AssertionError
      else
        (let self = \<lparr>in_dim = in_d,
                     out_dim = (case od of Some d \<Rightarrow> d | None \<Rightarrow> lw),
                     num_layers = n, layer_width = lw, skip_connections = skips,
                     activation = act, out_activation = oact, layers = []\<rparr>
         in case build_nn_modules ps self of
              Inl e \<Rightarrow> Inl e
            | Inr ls \<Rightarrow> Inr (self\<lparr>layers := ls\<rparr>)))"

text \<open>
  The loop of \<open>forward\<close> over \<^verbatim>\<open>enumerate(self.layers)\<close>, with the running value \<open>x\<close>.
\<close>

fun forward_loop :: "mlp \<Rightarrow> tensor \<Rightarrow> (nat \<times> linear) list \<Rightarrow> tensor \<Rightarrow> error + tensor" where
  "forward_loop self in_tensor [] x = Inr x"
| "forward_loop self in_tensor ((i, layer) # rest) x =
     (case (if int i \<in> set (skip_connections self) then cat_last in_tensor x else Inr x) of
        Inl e \<Rightarrow> Inl e
      | Inr x1 \<Rightarrow>
          (case linear_apply layer x1 of
             Inl e \<Rightarrow> Inl e
           | Inr x2 \<Rightarrow>
               forward_loop self in_tensor rest
                 (case activation self of None \<Rightarrow> x2 | Some a \<Rightarrow> act_apply a x2)))"

definition forward :: "mlp \<Rightarrow> tensor \<Rightarrow> error + tensor" where
  "forward self in_tensor = forward_loop self in_tensor (enumerate 0 (layers self)) in_tensor"

text \<open>
  The same loop with a log: the indices at which the concatenation branch was entered,
  in order, up to the end of the loop or to the raise that ends it.
\<close>

fun forward_logged ::
  "mlp \<Rightarrow> tensor \<Rightarrow> (nat \<times> linear) list \<Rightarrow> nat list \<Rightarrow> tensor \<Rightarrow> nat list \<times> (error + tensor)" where
  "forward_logged self in_tensor [] cats x = (cats, Inr x)"
| "forward_logged self in_tensor ((i, layer) # rest) cats x =
     (if int i \<in> set (skip_connections self) then
        (case cat_last in_tensor x of
           Inl e \<Rightarrow> (cats @ [i], Inl e)
         | Inr x1 \<Rightarrow>
             (case linear_apply layer x1 of
                Inl e \<Rightarrow> (cats @ [i], Inl e)
              | Inr x2 \<Rightarrow>
                  forward_logged self in_tensor rest (cats @ [i])
                    (case activation self of None \<Rightarrow> x2 | Some a \<Rightarrow> act_apply a x2)))
      else
        (case linear_apply layer x of
           Inl e \<Rightarrow> (cats, Inl e)
         | Inr x2 \<Rightarrow>
             forward_logged self in_tensor rest cats
               (case activation self of None \<Rightarrow> x2 | Some a \<Rightarrow> act_apply a x2)))"

definition concat_log :: "mlp \<Rightarrow> tensor \<Rightarrow> nat list" where
  "concat_log self in_tensor =
     fst (forward_logged self in_tensor (enumerate 0 (layers self)) [] in_tensor)"

section \<open>The evaluation algorithm as the specification words it\<close>

text \<open>
  With no activation, the specification describes the result as the composition of the
  affine transforms of the stack, the original input being concatenated in front of the
  running value at the skip indices.  One stage of that composition, and the composition
  over the stack in construction order:
\<close>

definition affine_stage :: "mlp \<Rightarrow> tensor \<Rightarrow> nat \<times> linear \<Rightarrow> tensor \<Rightarrow> error + tensor" where
  "affine_stage self in_tensor il x =
     (if int (fst il) \<in> set (skip_connections self)
      then (case cat_last in_tensor x of Inl e \<Rightarrow> Inl e | Inr x1 \<Rightarrow> linear_apply (snd il) x1)
      else linear_apply (snd il) x)"

definition affine_composition :: "mlp \<Rightarrow> tensor \<Rightarrow> error + tensor" where
  "affine_composition self in_tensor =
     fold (\<lambda>il r. case r of Inl e \<Rightarrow> Inl e | Inr x \<Rightarrow> affine_stage self in_tensor il x)
       (enumerate 0 (layers self)) (Inr in_tensor)"

text \<open>
  With an activation \<open>a\<close>, the specification describes each step of the evaluation as:
  concatenate at a skip index, apply the transform of the unit, apply \<open>a\<close> to the result,
  for every unit including the final one.  One such stage, and the stages composed over
  the stack in construction order:
\<close>

definition activated_stage ::
  "(scalar \<Rightarrow> scalar) \<Rightarrow> mlp \<Rightarrow> tensor \<Rightarrow> nat \<times> linear \<Rightarrow> tensor \<Rightarrow> error + tensor" where
  "activated_stage a self in_tensor il x =
     (case affine_stage self in_tensor il x of Inl e \<Rightarrow> Inl e | Inr z \<Rightarrow> Inr (act_apply a z))"

definition activated_composition :: "(scalar \<Rightarrow> scalar) \<Rightarrow> mlp \<Rightarrow> tensor \<Rightarrow> error + tensor" where
  "activated_composition a self in_tensor =
     fold (\<lambda>il r. case r of Inl e \<Rightarrow> Inl e | Inr x \<Rightarrow> activated_stage a self in_tensor il x)
       (enumerate 0 (layers self)) (Inr in_tensor)"

section \<open>Auxiliary notions for the proofs\<close>

text \<open>The combination \<open>c * a + (1 - c) * b\<close> of two entries.\<close>

definition comb :: "real \<Rightarrow> scalar \<Rightarrow> scalar \<Rightarrow> scalar" where
  "comb c a b = fadd (fmul (Num c) a) (fmul (Num (1 - c)) b)"


text \<open>The unit that the loop of \<open>build_nn_modules\<close> appends at index \<open>i\<close>.\<close>

definition hidden_unit :: "(nat \<Rightarrow> params) \<Rightarrow> mlp \<Rightarrow> nat \<Rightarrow> linear" where
  "hidden_unit ps self i =
     (if i = 0 then Linear (ps i) (in_dim self) (int (layer_width self))
      else if int i \<in> set (skip_connections self)
        then Linear (ps i) (int (layer_width self) + in_dim self) (int (layer_width self))
      else Linear (ps i) (int (layer_width self)) (int (layer_width self)))"

text \<open>
  The trailing width after a run of units starting at index \<open>i\<close> with trailing width
  \<open>d\<close>, provided each unit declares the input width that the loop of \<open>forward\<close> hands
  to it; \<open>None\<close> when some unit does not.
\<close>

fun chain_width :: "int list \<Rightarrow> nat \<Rightarrow> nat \<Rightarrow> nat \<Rightarrow> linear list \<Rightarrow> nat option" where
  "chain_width skips ind i d [] = Some d"
| "chain_width skips ind i d (l # ls) =
     (if in_features l = int (if int i \<in> set skips then ind + d else d)
      then chain_width skips ind (Suc i) (nat (out_features l)) ls else None)"

section \<open>Concrete instances\<close>

text \<open>Parameters with every weight \<open>1\<close> and every bias \<open>-1\<close>, for every unit.\<close>

definition unit_params :: "nat \<Rightarrow> params" where
  "unit_params k = (\<lambda>j i. Num 1, \<lambda>j. Num (- 1))"

definition zeros :: "nat list \<Rightarrow> tensor" where
  "zeros sh = \<lparr>shape = sh, data = replicate (prod_list sh) (Num 0)\<rparr>"

definition minus_ones :: "nat list \<Rightarrow> tensor" where
  "minus_ones sh = \<lparr>shape = sh, data = replicate (prod_list sh) (Num (- 1))\<rparr>"

definition nan_row :: tensor where
  "nan_row = \<lparr>shape = [1, 4], data = [NaN, Num (- 1), Num (- 1), Num (- 1)]\<rparr>"

definition nans :: "nat list \<Rightarrow> tensor" where
  "nans sh = \<lparr>shape = sh, data = replicate (prod_list sh) NaN\<rparr>"

definition ones :: "nat list \<Rightarrow> tensor" where
  "ones sh = \<lparr>shape = sh, data = replicate (prod_list sh) (Num 1)\<rparr>"

text \<open>Parameters with every weight \<open>-1\<close> and every bias \<open>1\<close>, for every unit.\<close>

definition neg_params :: "nat \<Rightarrow> params" where
  "neg_params k = (\<lambda>j i. Num (- 1), \<lambda>j. Num 1)"

definition mlp_two_layer_neg :: mlp where
  "mlp_two_layer_neg =
     \<lparr>in_dim = 4, out_dim = 3, num_layers = 2, layer_width = 8, skip_connections = [],
      activation = Some relu, out_activation = None,
      layers = [Linear (neg_params 0) 4 8, Linear (neg_params 1) 8 3]\<rparr>"

definition mlp_skip_last :: mlp where
  "mlp_skip_last =
     \<lparr>in_dim = 4, out_dim = 4, num_layers = 3, layer_width = 8, skip_connections = [2],
      activation = Some relu, out_activation = None,
      layers = [Linear (unit_params 0) 4 8, Linear (unit_params 1) 8 8,
                Linear (unit_params 2) 8 4]\<rparr>"

definition mlp_one_skip0 :: mlp where
  "mlp_one_skip0 =
     \<lparr>in_dim = 4, out_dim = 4, num_layers = 1, layer_width = 8, skip_connections = [0],
      activation = Some relu, out_activation = None,
      layers = [Linear (unit_params 0) 4 4]\<rparr>"

definition mlp_two_layer :: "(scalar \<Rightarrow> scalar) option \<Rightarrow> mlp" where
  "mlp_two_layer act =
     \<lparr>in_dim = 4, out_dim = 3, num_layers = 2, layer_width = 8, skip_connections = [],
      activation = act, out_activation = None,
      layers = [Linear (unit_params 0) 4 8, Linear (unit_params 1) 8 3]\<rparr>"

definition mlp_skip_mid :: mlp where
  "mlp_skip_mid =
     \<lparr>in_dim = 4, out_dim = 4, num_layers = 3, layer_width = 8, skip_connections = [1],
      activation = Some relu, out_activation = None,
      layers = [Linear (unit_params 0) 4 8, Linear (unit_params 1) 12 8,
                Linear (unit_params 2) 8 4]\<rparr>"

section \<open>Construction\<close>

lemma build_hidden_step:
  "(0::int) \<notin> set (skip_connections self) \<Longrightarrow>
   build_hidden ps self (length ls # is) ls
     = build_hidden ps self is (ls @ [hidden_unit ps self (length ls)])"
  by (simp add: hidden_unit_def)

lemma build_hidden_upt:
  "(0::int) \<notin> set (skip_connections self) \<Longrightarrow> length ls = k \<Longrightarrow>
   build_hidden ps self [k..<n] ls = Inr (ls @ map (hidden_unit ps self) [k..<n])"
proof (induction "n - k" arbitrary: k ls)
  case 0
  then show ?case by simp
next
  case (Suc d)
  then have kn: "k < n" by simp
  have step: "build_hidden ps self [Suc k..<n] (ls @ [hidden_unit ps self k])
      = Inr ((ls @ [hidden_unit ps self k]) @ map (hidden_unit ps self) [Suc k..<n])"
    using Suc by (intro Suc.hyps(1)) auto
  have "build_hidden ps self [k..<n] ls = build_hidden ps self (length ls # [Suc k..<n]) ls"
    using kn Suc.prems by (simp add: upt_conv_Cons)
  also have "\<dots> = build_hidden ps self [Suc k..<n] (ls @ [hidden_unit ps self k])"
  proof -
    have kl: "k = length ls" using Suc.prems by simp
    show ?thesis by (simp only: kl build_hidden_step[OF Suc.prems(1)])
  qed
  finally show ?case
    using kn step by (simp add: upt_conv_Cons)
qed

lemma build_hidden_assert:
  "(0::int) \<in> set (skip_connections self) \<Longrightarrow> 0 < n \<Longrightarrow>
   build_hidden ps self [0..<n] ls = Inl AssertionError"
  by (simp add: upt_conv_Cons)

lemma build_multi:
  assumes "(0::int) \<notin> set (skip_connections self)" "num_layers self \<noteq> 1"
  shows "build_nn_modules ps self =
     Inr (map (hidden_unit ps self) [0..<nat (num_layers self - 1)]
          @ [Linear (ps (nat (num_layers self - 1))) (int (layer_width self))
               (int (out_dim self))])"
  using assms by (simp add: build_nn_modules_def build_hidden_upt)

section \<open>Shapes\<close>

lemma length_row:
  assumes "length xs = n * d" "r < n"
  shows "length (row d xs r) = d"
proof -
  have "Suc r \<le> n" using assms(2) by simp
  then have "Suc r * d \<le> n * d" by (rule mult_le_mono1)
  then have "d \<le> n * d - r * d" by simp
  then show ?thesis using assms(1) by (simp add: row_def)
qed

lemma length_concat_const:
  assumes "\<And>r. r < n \<Longrightarrow> length (f r) = c"
  shows "length (concat (map f [0..<n])) = n * c"
proof -
  have "map (\<lambda>r. length (f r)) [0..<n] = map (\<lambda>r. c) [0..<n]"
    using assms by (intro map_cong) auto
  then have "sum_list (map (\<lambda>r. length (f r)) [0..<n]) = sum_list (map (\<lambda>r. c) [0..<n])"
    by (simp only:)
  also have "\<dots> = n * c" by (simp add: sum_list_triv)
  finally show ?thesis by (simp add: length_concat comp_def)
qed

lemma length_affine: "length (affine l v) = nat (out_features l)"
  by (simp add: affine_def)

lemma linear_apply_ok:
  assumes "shape t = bs @ [d]" "int d = in_features l"
  shows "\<exists>y. linear_apply l t = Inr y \<and> shape y = bs @ [nat (out_features l)] \<and> wf_tensor y"
  using assms
  by (simp add: linear_apply_def wf_tensor_def length_concat_const length_affine)

lemma cat_last_ok:
  assumes "shape a = bs @ [da]" "shape b = bs @ [db]" "wf_tensor a" "wf_tensor b"
  shows "\<exists>y. cat_last a b = Inr y \<and> shape y = bs @ [da + db] \<and> wf_tensor y"
proof -
  have la: "length (data a) = prod_list bs * da" and lb: "length (data b) = prod_list bs * db"
    using assms by (simp_all add: wf_tensor_def)
  have "length (concat (map (\<lambda>r. row da (data a) r @ row db (data b) r) [0..<prod_list bs]))
        = prod_list bs * (da + db)"
    by (rule length_concat_const) (simp add: length_row[OF la] length_row[OF lb])
  then show ?thesis
    using assms(1,2) by (simp add: cat_last_def wf_tensor_def)
qed

lemma act_apply_shape [simp]: "shape (act_apply f t) = shape t"
  by (simp add: act_apply_def)

lemma act_apply_wf [simp]: "wf_tensor (act_apply f t) = wf_tensor t"
  by (simp add: act_apply_def wf_tensor_def)

lemma forward_loop_shape:
  assumes "chain_width (skip_connections self) ind i d ls = Some d'"
    and "shape inp = bs @ [ind]" "wf_tensor inp" "shape x = bs @ [d]" "wf_tensor x"
  shows "\<exists>y. forward_loop self inp (enumerate i ls) x = Inr y \<and> shape y = bs @ [d']
             \<and> wf_tensor y"
  using assms
proof (induction ls arbitrary: i d x)
  case Nil
  then show ?case by simp
next
  case (Cons l ls)
  let ?hit = "int i \<in> set (skip_connections self)"
  let ?w = "if ?hit then ind + d else d"
  from Cons.prems(1) have inw: "in_features l = int ?w"
    and rest: "chain_width (skip_connections self) ind (Suc i) (nat (out_features l)) ls = Some d'"
    by (simp_all split: if_splits)
  obtain x1 where x1: "(if ?hit then cat_last inp x else Inr x) = Inr x1"
      "shape x1 = bs @ [?w]" "wf_tensor x1"
    using cat_last_ok[OF Cons.prems(2) Cons.prems(4) Cons.prems(3) Cons.prems(5)] Cons.prems(4,5)
    by (cases ?hit) auto
  obtain x2 where x2: "linear_apply l x1 = Inr x2" "shape x2 = bs @ [nat (out_features l)]"
      "wf_tensor x2"
    using linear_apply_ok[OF x1(2) inw[symmetric]] by blast
  let ?x3 = "case activation self of None \<Rightarrow> x2 | Some a \<Rightarrow> act_apply a x2"
  have x3: "shape ?x3 = bs @ [nat (out_features l)]" "wf_tensor ?x3"
    using x2 by (simp_all split: option.splits)
  from Cons.IH[OF rest Cons.prems(2,3) x3]
  obtain y where y: "forward_loop self inp (enumerate (Suc i) ls) ?x3 = Inr y"
     "shape y = bs @ [d']" "wf_tensor y" by blast
  have "forward_loop self inp (enumerate i (l # ls)) x = Inr y"
    using x1(1) x2(1) y(1) by simp
  then show ?case using y by blast
qed

section \<open>The stack that construction builds\<close>

lemma hidden_unit_pos:
  "0 < i \<Longrightarrow> in_features (hidden_unit ps self i)
     = (if int i \<in> set (skip_connections self) then int (layer_width self) + in_dim self
        else int (layer_width self))
   \<and> out_features (hidden_unit ps self i) = int (layer_width self)"
  by (simp add: hidden_unit_def Linear_def)

lemma chain_width_hidden:
  assumes "0 < k" "k \<le> n" "int ind = in_dim self"
  shows "chain_width (skip_connections self) ind k (layer_width self)
           (map (hidden_unit ps self) [k..<n] @ rest)
         = chain_width (skip_connections self) ind n (layer_width self) rest"
  using assms
proof (induction "n - k" arbitrary: k)
  case 0
  then show ?case by simp
next
  case (Suc d)
  then have kn: "k < n" by simp
  have IH: "chain_width (skip_connections self) ind (Suc k) (layer_width self)
           (map (hidden_unit ps self) [Suc k..<n] @ rest)
         = chain_width (skip_connections self) ind n (layer_width self) rest"
    using Suc by (intro Suc.hyps(1)) auto
  show ?case
    using kn Suc.prems(1,3) IH
    by (simp add: upt_conv_Cons hidden_unit_pos add.commute)
qed

lemma MLP_init_Inr:
  assumes "MLP_init ps in_d n lw od skips act oact = Inr m"
  shows "0 < in_d \<and> in_dim m = in_d \<and> out_dim m = (case od of Some d \<Rightarrow> d | None \<Rightarrow> lw)
     \<and> num_layers m = n \<and> layer_width m = lw \<and> skip_connections m = skips
     \<and> activation m = act \<and> out_activation m = oact
     \<and> build_nn_modules ps (m\<lparr>layers := []\<rparr>) = Inr (layers m)"
  using assms by (auto simp add: MLP_init_def Let_def split: if_splits sum.splits)

lemma hidden_unit_layers [simp]: "hidden_unit ps (self\<lparr>layers := ls\<rparr>) = hidden_unit ps self"
  by (rule ext) (simp add: hidden_unit_def)

lemma build_single:
  "num_layers self = 1 \<Longrightarrow>
   build_nn_modules ps self = Inr [Linear (ps 0) (in_dim self) (int (out_dim self))]"
  by (simp add: build_nn_modules_def)

lemma build_assert:
  assumes "(0::int) \<in> set (skip_connections self)" "2 \<le> num_layers self"
  shows "build_nn_modules ps self = Inl AssertionError"
proof -
  have "0 < nat (num_layers self - 1)" using assms(2) by simp
  then show ?thesis
    using assms by (simp add: build_nn_modules_def build_hidden_assert)
qed

lemma build_nonpos:
  "num_layers self \<le> 0 \<Longrightarrow>
   build_nn_modules ps self = Inr [Linear (ps 0) (int (layer_width self)) (int (out_dim self))]"
  by (simp add: build_nn_modules_def)

lemma built_skip0:
  assumes "MLP_init ps in_d n lw od skips act oact = Inr m" "2 \<le> n"
  shows "(0::int) \<notin> set skips"
proof
  assume "(0::int) \<in> set skips"
  then have "build_nn_modules ps (m\<lparr>layers := []\<rparr>) = Inl AssertionError"
    using MLP_init_Inr[OF assms(1)] assms(2) by (intro build_assert) simp_all
  then show False using MLP_init_Inr[OF assms(1)] by simp
qed

lemma built_layers:
  assumes "MLP_init ps in_d n lw od skips act oact = Inr m"
  shows "layers m =
     (if n = 1 then [Linear (ps 0) in_d (int (out_dim m))]
      else map (hidden_unit ps m) [0..<nat (n - 1)]
           @ [Linear (ps (nat (n - 1))) (int lw) (int (out_dim m))])"
proof -
  note f = MLP_init_Inr[OF assms]
  consider "n = 1" | "2 \<le> n" | "n \<le> 0" by linarith
  then show ?thesis
  proof cases
    case 1
    then show ?thesis using f build_single[of "m\<lparr>layers := []\<rparr>" ps] by simp
  next
    case 2
    then have "(0::int) \<notin> set (skip_connections (m\<lparr>layers := []\<rparr>))"
      and "num_layers (m\<lparr>layers := []\<rparr>) \<noteq> 1"
      using built_skip0[OF assms] f by simp_all
    from build_multi[OF this, of ps] show ?thesis using f 2 by simp
  next
    case 3
    then show ?thesis using f build_nonpos[of "m\<lparr>layers := []\<rparr>" ps] by simp
  qed
qed

lemma built_chain:
  assumes "MLP_init ps in_d n lw od skips act oact = Inr m"
    and "1 \<le> n" "n - 1 \<notin> set skips"
  shows "chain_width (skip_connections m) (nat in_d) 0 (nat in_d) (layers m) = Some (out_dim m)"
proof -
  note f = MLP_init_Inr[OF assms(1)]
  have ind: "int (nat in_d) = in_dim m" using f by simp
  show ?thesis
  proof (cases "n = 1")
    case True
    then show ?thesis
      using built_layers[OF assms(1)] f assms(3) by (simp add: Linear_def)
  next
    case False
    then have n2: "2 \<le> n" using assms(2) by simp
    have z: "(0::int) \<notin> set (skip_connections m)" using built_skip0[OF assms(1) n2] f by simp
    let ?fin = "Linear (ps (nat (n - 1))) (int lw) (int (out_dim m))"
    have ls: "layers m = hidden_unit ps m 0 # (map (hidden_unit ps m) [1..<nat (n - 1)] @ [?fin])"
      using built_layers[OF assms(1)] False n2 by (simp add: upt_conv_Cons)
    have h0: "in_features (hidden_unit ps m 0) = in_dim m"
         "out_features (hidden_unit ps m 0) = int (layer_width m)"
      by (simp_all add: hidden_unit_def Linear_def)
    have "chain_width (skip_connections m) (nat in_d) 0 (nat in_d) (layers m)
        = chain_width (skip_connections m) (nat in_d) 1 (layer_width m)
            (map (hidden_unit ps m) [1..<nat (n - 1)] @ [?fin])"
      using z h0 ind by (simp add: ls)
    also have "\<dots> = chain_width (skip_connections m) (nat in_d) (nat (n - 1)) (layer_width m) [?fin]"
      using n2 ind by (intro chain_width_hidden) simp_all
    also have "\<dots> = Some (out_dim m)"
      using n2 assms(3) f by (simp add: Linear_def)
    finally show ?thesis .
  qed
qed

lemma MLP_init_ok:
  assumes "0 < in_d" "n = 1 \<or> n \<le> 0 \<or> (0::int) \<notin> set skips"
  shows "\<exists>m. MLP_init ps in_d n lw od skips act oact = Inr m"
proof -
  let ?self = "\<lparr>in_dim = in_d, out_dim = (case od of Some d \<Rightarrow> d | None \<Rightarrow> lw),
                num_layers = n, layer_width = lw, skip_connections = skips,
                activation = act, out_activation = oact, layers = []\<rparr>"
  have "\<exists>ls. build_nn_modules ps ?self = Inr ls"
    using assms(2) build_single[of ?self ps] build_nonpos[of ?self ps] build_multi[of ?self ps]
    by (cases "n = 1") auto
  then show ?thesis using assms(1) by (auto simp add: MLP_init_def Let_def)
qed

section \<open>The loop of \<open>forward\<close>\<close>

text \<open>The logged loop computes what the loop of \<open>forward\<close> computes.\<close>

lemma forward_logged_snd:
  "snd (forward_logged self inp ils cats x) = forward_loop self inp ils x"
  by (induction ils arbitrary: cats x) (auto split: sum.splits)

lemma forward_logged_forward:
  "snd (forward_logged self t (enumerate 0 (layers self)) [] t) = forward self t"
  by (simp add: forward_logged_snd forward_def)

text \<open>No index of the run is a skip index: the log stays as it is.\<close>

lemma forward_logged_no_hit:
  assumes "\<forall>p\<in>set ils. int (fst p) \<notin> set (skip_connections self)"
  shows "fst (forward_logged self inp ils cats x) = cats"
  using assms by (induction ils arbitrary: cats x) (auto split: sum.splits)

lemma forward_loop_cong:
  assumes "activation m' = activation m"
    and "\<forall>p\<in>set ils. (int (fst p) \<in> set (skip_connections m'))
                       = (int (fst p) \<in> set (skip_connections m))"
  shows "forward_loop m' inp ils x = forward_loop m inp ils x"
  using assms by (induction ils arbitrary: x) (auto split: sum.splits)

lemma enumerate_fst_bound:
  "p \<in> set (enumerate k ls) \<Longrightarrow> k \<le> fst p \<and> fst p < k + length ls"
  by (auto simp add: in_set_enumerate_eq)

lemma built_length:
  assumes "MLP_init ps in_d n lw od skips act oact = Inr m"
  shows "length (layers m) = (if 2 \<le> n then nat n else 1)"
  using built_layers[OF assms] by (auto simp add: nat_diff_distrib)

lemma build_hidden_out_activation:
  "build_hidden ps (self\<lparr>out_activation := oa\<rparr>) is ls = build_hidden ps self is ls"
  by (induction "is" arbitrary: ls) simp_all

lemma build_nn_modules_out_activation:
  "build_nn_modules ps (self\<lparr>out_activation := oa\<rparr>) = build_nn_modules ps self"
  by (simp add: build_nn_modules_def build_hidden_out_activation split: sum.splits)

lemma forward_loop_append:
  "forward_loop self inp (ils @ jls) x =
     (case forward_loop self inp ils x of Inl e \<Rightarrow> Inl e
      | Inr x' \<Rightarrow> forward_loop self inp jls x')"
  by (induction ils arbitrary: x) (auto split: sum.splits)

lemma forward_loop_last_act:
  assumes "activation self = Some a"
    and "forward_loop self inp (ils @ [(i, l)]) x = Inr y"
  shows "\<exists>u z. linear_apply l u = Inr z \<and> y = act_apply a z"
  using assms by (auto simp add: forward_loop_append split: sum.splits if_splits)

lemma built_nonempty:
  assumes "MLP_init ps in_d n lw od skips act oact = Inr m"
  shows "layers m \<noteq> []"
  using built_layers[OF assms] by (auto split: if_splits)

lemma relu_nonneg: "relu v = NaN \<or> nonneg (relu v)"
  by (cases v) simp_all

lemma fold_stage_Inl:
  "fold (\<lambda>il r. case r of Inl e \<Rightarrow> Inl e | Inr x \<Rightarrow> g il x) ils (Inl e) = Inl e"
  by (induction ils) simp_all

lemma forward_loop_no_activation:
  assumes "activation self = None"
  shows "forward_loop self inp ils x =
     fold (\<lambda>il r. case r of Inl e \<Rightarrow> Inl e | Inr x \<Rightarrow> affine_stage self inp il x) ils (Inr x)"
  using assms
  by (induction ils arbitrary: x)
     (auto simp add: affine_stage_def fold_stage_Inl split: sum.splits)

lemma forward_loop_with_activation:
  assumes "activation self = Some a"
  shows "forward_loop self inp ils x =
     fold (\<lambda>il r. case r of Inl e \<Rightarrow> Inl e | Inr x \<Rightarrow> activated_stage a self inp il x)
       ils (Inr x)"
  using assms
  by (induction ils arbitrary: x)
     (auto simp add: activated_stage_def affine_stage_def fold_stage_Inl split: sum.splits)

lemma comb_step:
  "fadd (fmul w (comb c u v)) (comb c p q) = comb c (fadd (fmul w u) p) (fadd (fmul w v) q)"
  by (cases w; cases u; cases v; cases p; cases q) (simp_all add: comb_def algebra_simps)

lemma comb_bias: "fadd (comb c p q) b = comb c (fadd p b) (fadd q b)"
  by (cases p; cases q; cases b) (simp_all add: comb_def algebra_simps)

lemma fsum_combination:
  "fsum (map (\<lambda>k. fmul (w k) (comb c (u k) (v k))) xs)
     = comb c (fsum (map (\<lambda>k. fmul (w k) (u k)) xs)) (fsum (map (\<lambda>k. fmul (w k) (v k)) xs))"
proof (induction xs)
  case Nil
  show ?case by (simp add: fsum_def comb_def)
next
  case (Cons k xs)
  then show ?case by (simp add: fsum_def comb_step)
qed

text \<open>The map of a unit preserves the combinations \<open>c * u + (1 - c) * v\<close>: it is affine.\<close>

lemma affine_combination:
  "affine l (map (\<lambda>k. comb c (u ! k) (v ! k)) [0..<nat (in_features l)])
     = map2 (comb c) (affine l u) (affine l v)"
proof -
  let ?n = "nat (in_features l)"
  have inner: "map (\<lambda>k. fmul (weight l j k) (map (\<lambda>k. comb c (u ! k) (v ! k)) [0..<?n] ! k)) [0..<?n]
      = map (\<lambda>k. fmul (weight l j k) (comb c (u ! k) (v ! k))) [0..<?n]" for j
    by (rule map_cong) simp_all
  have pt: "fadd (fsum (map (\<lambda>k. fmul (weight l j k) (comb c (u ! k) (v ! k))) [0..<?n])) (bias l j)
      = comb c (fadd (fsum (map (\<lambda>k. fmul (weight l j k) (u ! k)) [0..<?n])) (bias l j))
               (fadd (fsum (map (\<lambda>k. fmul (weight l j k) (v ! k)) [0..<?n])) (bias l j))" for j
    by (simp only: fsum_combination comb_bias)
  show ?thesis
    unfolding affine_def inner pt by (simp add: map2_map_map)
qed

section \<open>Evaluation of the concrete instances\<close>

lemmas eval_defs = forward_def concat_log_def linear_apply_def affine_def row_def cat_last_def
  act_apply_def fsum_def Linear_def unit_params_def neg_params_def zeros_def minus_ones_def
  ones_def nans_def nan_row_def wf_tensor_def

lemma init_skip_last:
  "MLP_init unit_params 4 3 8 (Some 4) [2] (Some relu) None = Inr mlp_skip_last"
  by (simp add: MLP_init_def build_nn_modules_def mlp_skip_last_def upt_rec unit_params_def)

lemma init_skip_mid:
  "MLP_init unit_params 4 3 8 (Some 4) [1] (Some relu) None = Inr mlp_skip_mid"
  by (simp add: MLP_init_def build_nn_modules_def mlp_skip_mid_def upt_rec unit_params_def)

lemma init_one_skip0:
  "MLP_init unit_params 4 1 8 (Some 4) [0] (Some relu) None = Inr mlp_one_skip0"
  by (simp add: MLP_init_def build_nn_modules_def mlp_one_skip0_def)

lemma init_two_layer:
  "MLP_init unit_params 4 2 8 (Some 3) [] act oact
     = Inr ((mlp_two_layer act)\<lparr>out_activation := oact\<rparr>)"
  by (simp add: MLP_init_def build_nn_modules_def mlp_two_layer_def upt_rec)

lemma fwd_two_layer:
  "forward (mlp_two_layer (Some relu)) (minus_ones [1, 4]) = Inr (zeros [1, 3])"
  by (simp add: mlp_two_layer_def eval_defs upt_rec eval_nat_numeral)

lemma fwd_two_layer_plain:
  "forward (mlp_two_layer None) (minus_ones [1, 4])
     = Inr \<lparr>shape = [1, 3], data = [Num (- 41), Num (- 41), Num (- 41)]\<rparr>"
  by (simp add: mlp_two_layer_def eval_defs upt_rec eval_nat_numeral)

lemma init_two_layer_neg:
  "MLP_init neg_params 4 2 8 (Some 3) [] (Some relu) None = Inr mlp_two_layer_neg"
  by (simp add: MLP_init_def build_nn_modules_def mlp_two_layer_neg_def upt_rec neg_params_def)

lemma fwd_two_layer_neg:
  "forward mlp_two_layer_neg (ones [1, 4]) = Inr (ones [1, 3])"
  by (simp add: mlp_two_layer_neg_def eval_defs upt_rec eval_nat_numeral)

lemma fwd_two_layer_nan:
  "forward (mlp_two_layer (Some relu)) nan_row = Inr (nans [1, 3])"
  by (simp add: mlp_two_layer_def eval_defs upt_rec eval_nat_numeral)

lemma skip0_rejected_multi:
  assumes "0 < in_d" "2 \<le> n" "(0::int) \<in> set skips"
  shows "MLP_init ps in_d n lw od skips act oact = Inl AssertionError"
  using assms by (simp add: MLP_init_def Let_def build_assert)

section \<open>Claims about construction\<close>

text \<open>
  Claim C1.  For every valid configuration (\<open>in_dim > 0\<close>, \<open>0\<close> not a skip index) with
  \<open>num_layers = N \<ge> 2\<close>, construction succeeds and the stack has exactly \<open>N\<close> units: the
  first maps \<open>in_dim\<close> to \<open>layer_width\<close>, the unit at an interior index \<open>i\<close>
  (\<open>1 \<le> i \<le> N - 2\<close>) maps \<open>layer_width + in_dim\<close> to \<open>layer_width\<close> when \<open>i\<close> is a
  skip index and \<open>layer_width\<close> to \<open>layer_width\<close> otherwise, and the last maps
  \<open>layer_width\<close> to \<open>out_dim\<close> (which is \<open>layer_width\<close> when not given).
\<close>

theorem C1_layer_stack:
  assumes "0 < in_d" "(0::int) \<notin> set skips" "2 \<le> n"
  shows "\<exists>m. MLP_init ps in_d n lw od skips act oact = Inr m
      \<and> int (length (layers m)) = n
      \<and> dims (layers m ! 0) = (in_d, int lw)
      \<and> (\<forall>i. 1 \<le> i \<and> int i \<le> n - 2 \<longrightarrow>
            dims (layers m ! i) = (if int i \<in> set skips then (int lw + in_d, int lw)
                                   else (int lw, int lw)))
      \<and> dims (layers m ! nat (n - 1)) = (int lw, int (case od of Some d \<Rightarrow> d | None \<Rightarrow> lw))"
proof -
  obtain m where m: "MLP_init ps in_d n lw od skips act oact = Inr m"
    using MLP_init_ok[OF assms(1)] assms(2) by blast
  note f = MLP_init_Inr[OF m]
  let ?h = "nat (n - 1)"
  let ?fin = "Linear (ps ?h) (int lw) (int (out_dim m))"
  have ls: "layers m = map (hidden_unit ps m) [0..<?h] @ [?fin]"
    using built_layers[OF m] assms(3) by simp
  have len: "int (length (layers m)) = n" using assms(3) by (simp add: ls)
  have hpos: "0 < ?h" using assms(3) by simp
  have nth: "\<And>i. i < ?h \<Longrightarrow> layers m ! i = hidden_unit ps m i"
    by (simp add: ls nth_append)
  have first: "dims (layers m ! 0) = (in_d, int lw)"
    using nth[OF hpos] f by (simp add: hidden_unit_def dims_def Linear_def)
  have mid: "dims (layers m ! i) = (if int i \<in> set skips then (int lw + in_d, int lw)
                                   else (int lw, int lw))"
    if "1 \<le> i \<and> int i \<le> n - 2" for i
  proof -
    have "i < ?h" using that by linarith
    then show ?thesis
      using nth[of i] that f by (simp add: hidden_unit_def dims_def Linear_def)
  qed
  have lst: "dims (layers m ! ?h) = (int lw, int (case od of Some d \<Rightarrow> d | None \<Rightarrow> lw))"
    using f by (simp add: ls nth_append dims_def Linear_def)
  show ?thesis using m len first mid lst by blast
qed

theorem C1_layer_stack_witness:
  "(0::int) < 4 \<and> (0::int) \<notin> set [1] \<and> (2::int) \<le> 3
   \<and> (\<exists>m. MLP_init unit_params 4 3 8 (Some 4) [1] (Some relu) None = Inr m
      \<and> int (length (layers m)) = 3
      \<and> dims (layers m ! 0) = (4, int 8)
      \<and> (\<forall>i. 1 \<le> i \<and> int i \<le> 3 - 2 \<longrightarrow>
            dims (layers m ! i) = (if int i \<in> set [1] then (int 8 + 4, int 8)
                                   else (int 8, int 8)))
      \<and> dims (layers m ! nat (3 - 1)) = (int 8, int (case Some 4 of Some d \<Rightarrow> d | None \<Rightarrow> 8)))"
proof -
  have h: "(0::int) < 4" "(0::int) \<notin> set [1]" "(2::int) \<le> 3" by simp_all
  show ?thesis
    using h C1_layer_stack[OF h, of unit_params 8 "Some 4" "Some relu" None] by simp
qed

text \<open>
  Claim C9.  For every \<open>in_dim \<le> 0\<close> and any other parameter values, construction fails
  with the assertion error; no instance and no layer stack result.
\<close>

theorem C9_in_dim_rejected:
  "in_d \<le> 0 \<Longrightarrow> MLP_init ps in_d n lw od skips act oact = Inl AssertionError"
  by (simp add: MLP_init_def)

theorem C9_in_dim_rejected_witness:
  "(0::int) \<le> 0 \<and> MLP_init unit_params 0 3 8 (Some 4) [1] (Some relu) None = Inl AssertionError"
proof -
  have h: "(0::int) \<le> 0" by simp
  show ?thesis using h C9_in_dim_rejected[OF h] by simp
qed

text \<open>
  Claim C10.  For every \<open>in_dim > 0\<close> and empty \<open>skip_connections\<close>, construction with
  \<open>num_layers = 0\<close> raises nothing: the loop over the hidden layers returns the empty
  list it started from, and the stack is the single unit mapping \<open>layer_width\<close> to
  \<open>out_dim\<close>.
\<close>

theorem C10_zero_layers:
  assumes "0 < in_d"
  shows "\<exists>m. MLP_init ps in_d 0 lw od [] act oact = Inr m
      \<and> build_hidden ps m [0..<nat (num_layers m - 1)] [] = Inr []
      \<and> map dims (layers m) = [(int lw, int (case od of Some d \<Rightarrow> d | None \<Rightarrow> lw))]"
proof -
  obtain m where m: "MLP_init ps in_d 0 lw od [] act oact = Inr m"
    using MLP_init_ok[OF assms] by blast
  note f = MLP_init_Inr[OF m]
  have "layers m = [Linear (ps 0) (int lw) (int (out_dim m))]"
    using built_layers[OF m] by simp
  then show ?thesis using m f by (simp add: dims_def Linear_def)
qed

theorem C10_zero_layers_witness:
  "(0::int) < 4 \<and> (\<exists>m. MLP_init unit_params 4 0 8 (Some 3) [] (Some relu) None = Inr m
      \<and> build_hidden unit_params m [0..<nat (num_layers m - 1)] [] = Inr []
      \<and> map dims (layers m) = [(int 8, int (case Some 3 of Some d \<Rightarrow> d | None \<Rightarrow> 8))])"
proof -
  have h: "(0::int) < 4" by simp
  show ?thesis using h C10_zero_layers[OF h, of unit_params 8 "Some 3" "Some relu" None] by simp
qed

text \<open>
  Claim C3.  For every \<open>num_layers \<ge> 1\<close> and every configuration whose
  \<open>skip_connections\<close> contains the index \<open>0\<close>, construction fails with the assertion
  error.  The module asserts this only inside the loop over the hidden layers, so for
  \<open>num_layers \<ge> 2\<close> (lemma \<open>skip0_rejected_multi\<close>).  At \<open>num_layers = 1\<close> the branch
  that builds the single unit has no assertion: construction returns an instance, and
  evaluating it enters the concatenation branch at index \<open>0\<close> and ends in the library's
  shape error.
\<close>

theorem C3_single_layer_skip0_accepted:
  "MLP_init unit_params 4 1 8 (Some 4) [0] (Some relu) None = Inr mlp_one_skip0
   \<and> concat_log mlp_one_skip0 (zeros [1, 4]) = [0]
   \<and> forward mlp_one_skip0 (zeros [1, 4]) = Inl ShapeError"
  using init_one_skip0 by (simp add: mlp_one_skip0_def eval_defs upt_rec)

text \<open>
  Claim C6.  For every valid configuration (\<open>in_dim > 0\<close>, \<open>0\<close> not a skip index) with
  \<open>num_layers = 1\<close>, the stack is the single unit mapping \<open>in_dim\<close> to \<open>out_dim\<close>;
  construction gives that stack whatever \<open>skip_connections\<close> holds, and evaluation never
  enters the concatenation branch and returns what it returns with no skip index at all.
\<close>

theorem C6_single_layer:
  assumes "0 < in_d" "(0::int) \<notin> set skips"
  shows "\<exists>m. MLP_init ps in_d 1 lw od skips act oact = Inr m
     \<and> layers m = [Linear (ps 0) in_d (int (case od of Some d \<Rightarrow> d | None \<Rightarrow> lw))]
     \<and> (\<forall>s. build_nn_modules ps (m\<lparr>skip_connections := s\<rparr>) = Inr (layers m))
     \<and> (\<forall>t. concat_log m t = [] \<and> forward m t = forward (m\<lparr>skip_connections := []\<rparr>) t)"
proof -
  obtain m where m: "MLP_init ps in_d 1 lw od skips act oact = Inr m"
    using MLP_init_ok[OF assms(1)] by blast
  note f = MLP_init_Inr[OF m]
  have ls: "layers m = [Linear (ps 0) in_d (int (case od of Some d \<Rightarrow> d | None \<Rightarrow> lw))]"
    using built_layers[OF m] f by simp
  have b: "build_nn_modules ps (m\<lparr>skip_connections := s\<rparr>) = Inr (layers m)" for s
    using f ls by (simp add: build_single)
  have nh: "\<forall>p\<in>set (enumerate 0 (layers m)). int (fst p) \<notin> set (skip_connections m)"
    using assms(2) f by (simp add: ls)
  have lg: "concat_log m t = []" for t
    using forward_logged_no_hit[OF nh] by (simp add: concat_log_def)
  have fw: "forward m t = forward (m\<lparr>skip_connections := []\<rparr>) t" for t
    unfolding forward_def using nh
    by (simp add: forward_loop_cong[of "m\<lparr>skip_connections := []\<rparr>" m])
  show ?thesis using m ls b lg fw by blast
qed

theorem C6_single_layer_witness:
  "(0::int) < 4 \<and> (0::int) \<notin> set [3]
   \<and> (\<exists>m. MLP_init unit_params 4 1 8 (Some 3) [3] (Some relu) None = Inr m
        \<and> layers m = [Linear (unit_params 0) 4 (int 3)]
        \<and> build_nn_modules unit_params (m\<lparr>skip_connections := [0, 7]\<rparr>) = Inr (layers m)
        \<and> concat_log m (zeros [1, 4]) = []
        \<and> forward m (zeros [1, 4]) = forward (m\<lparr>skip_connections := []\<rparr>) (zeros [1, 4]))"
proof -
  have h: "(0::int) < 4" "(0::int) \<notin> set [3]" by simp_all
  from C6_single_layer[OF h, of unit_params 8 "Some 3" "Some relu" None]
  obtain m where m: "MLP_init unit_params 4 1 8 (Some 3) [3] (Some relu) None = Inr m"
      "layers m = [Linear (unit_params 0) 4 (int 3)]"
      "\<forall>s. build_nn_modules unit_params (m\<lparr>skip_connections := s\<rparr>) = Inr (layers m)"
      "\<forall>t. concat_log m t = [] \<and> forward m t = forward (m\<lparr>skip_connections := []\<rparr>) t"
    by auto
  show ?thesis using h m by blast
qed

section \<open>Claims about evaluation\<close>

text \<open>
  Claim C2, as amended.  For every constructed instance with an activation \<open>a\<close>,
  evaluation applies \<open>a\<close> after the transform of every unit, the final one included: the
  result of \<open>forward\<close> is the result of composing, over the whole stack, the stages
  "concatenate at a skip index, apply the unit, apply \<open>a\<close>", so the returned tensor is \<open>a\<close>
  applied element-wise to an output of the last unit.  With \<open>a = relu\<close> no entry of the
  returned tensor is negative: each is non-negative or NaN.
\<close>

theorem C2_activation_after_every_unit:
  assumes "MLP_init ps in_d n lw od skips (Some a) oact = Inr m"
  shows "forward m t = activated_composition a m t
       \<and> (\<forall>y. forward m t = Inr y
          \<longrightarrow> (\<exists>u z. linear_apply (last (layers m)) u = Inr z \<and> y = act_apply a z)
              \<and> (a = relu \<longrightarrow> (\<forall>v\<in>set (data y). v = NaN \<or> nonneg v)))"
proof -
  note f = MLP_init_Inr[OF assms]
  have act: "activation m = Some a" using f by simp
  have run: "forward m t = activated_composition a m t"
    by (simp add: forward_def activated_composition_def forward_loop_with_activation[OF act])
  have fin: "(\<exists>u z. linear_apply (last (layers m)) u = Inr z \<and> y = act_apply a z)
              \<and> (a = relu \<longrightarrow> (\<forall>v\<in>set (data y). v = NaN \<or> nonneg v))"
    if "forward m t = Inr y" for y
  proof -
    have ne: "layers m \<noteq> []" by (rule built_nonempty[OF assms])
    let ?k = "length (layers m) - 1"
    have "layers m = butlast (layers m) @ [last (layers m)]" using ne by simp
    then have "enumerate 0 (layers m)
        = enumerate 0 (butlast (layers m)) @ [(?k, last (layers m))]"
      by (metis enumerate_append_eq enumerate_simps(1,2) length_butlast add_0)
    then have "forward_loop m t (enumerate 0 (butlast (layers m)) @ [(?k, last (layers m))]) t
        = Inr y"
      using that by (simp add: forward_def)
    from forward_loop_last_act[OF act this]
    obtain u z where uz: "linear_apply (last (layers m)) u = Inr z" "y = act_apply a z"
      by blast
    have "a = relu \<longrightarrow> (\<forall>v\<in>set (data y). v = NaN \<or> nonneg v)"
      using uz(2) relu_nonneg by (auto simp add: act_apply_def)
    then show ?thesis using uz by auto
  qed
  show ?thesis using run fin by blast
qed

theorem C2_activation_after_every_unit_witness:
  "MLP_init unit_params 4 2 8 (Some 3) [] (Some relu) None = Inr (mlp_two_layer (Some relu))
   \<and> forward (mlp_two_layer (Some relu)) (minus_ones [1, 4])
       = activated_composition relu (mlp_two_layer (Some relu)) (minus_ones [1, 4])
   \<and> activated_composition relu (mlp_two_layer (Some relu)) (minus_ones [1, 4])
       = Inr (zeros [1, 3])
   \<and> linear_apply (last (layers (mlp_two_layer (Some relu)))) (zeros [1, 8])
       = Inr (minus_ones [1, 3])
   \<and> (\<exists>u z. linear_apply (last (layers (mlp_two_layer (Some relu)))) u = Inr z
            \<and> zeros [1, 3] = act_apply relu z)
   \<and> list_all (\<lambda>v. v = NaN \<or> nonneg v) (data (zeros [1, 3]))
   \<and> MLP_init neg_params 4 2 8 (Some 3) [] (Some relu) None = Inr mlp_two_layer_neg
   \<and> activated_composition relu mlp_two_layer_neg (ones [1, 4]) = Inr (ones [1, 3])"
proof -
  have pre: "linear_apply (last (layers (mlp_two_layer (Some relu)))) (zeros [1, 8])
       = Inr (minus_ones [1, 3])"
    by (simp add: mlp_two_layer_def eval_defs upt_rec eval_nat_numeral)
  have i: "MLP_init unit_params 4 2 8 (Some 3) [] (Some relu) None
             = Inr (mlp_two_layer (Some relu))"
    using init_two_layer[of "Some relu" None] by (simp add: mlp_two_layer_def)
  from C2_activation_after_every_unit[OF i, of "minus_ones [1, 4]"] fwd_two_layer
  have a: "activated_composition relu (mlp_two_layer (Some relu)) (minus_ones [1, 4])
             = Inr (zeros [1, 3])"
    and b: "(\<exists>u z. linear_apply (last (layers (mlp_two_layer (Some relu)))) u = Inr z
            \<and> zeros [1, 3] = act_apply relu z)
        \<and> (\<forall>v\<in>set (data (zeros [1, 3])). v = NaN \<or> nonneg v)"
    by simp_all
  from C2_activation_after_every_unit[OF init_two_layer_neg, of "ones [1, 4]"]
    fwd_two_layer_neg
  have c: "activated_composition relu mlp_two_layer_neg (ones [1, 4]) = Inr (ones [1, 3])"
    by simp
  show ?thesis
    using i fwd_two_layer pre a b c init_two_layer_neg by (simp add: list_all_iff)
qed

text \<open>
  The claim as stated has every entry of the returned tensor non-negative under \<open>relu\<close>.
  \<open>relu\<close> returns NaN on NaN, and NaN is not non-negative: on an input row with a NaN
  entry the instance of the specification's scenario returns NaN in every entry.
\<close>

theorem C2_counterexample:
  "MLP_init unit_params 4 2 8 (Some 3) [] (Some relu) None = Inr (mlp_two_layer (Some relu))
   \<and> wf_tensor nan_row \<and> shape nan_row = [1, 4]
   \<and> forward (mlp_two_layer (Some relu)) nan_row = Inr (nans [1, 3])
   \<and> \<not> list_all nonneg (data (nans [1, 3]))"
  using init_two_layer[of "Some relu" None] fwd_two_layer_nan
  by (simp add: mlp_two_layer_def nans_def nan_row_def wf_tensor_def eval_nat_numeral)

text \<open>
  Claim C4, as amended.  For every configuration with \<open>in_dim > 0\<close> in which every element
  of \<open>skip_connections\<close> is greater than \<open>num_layers - 1\<close> (and \<open>0\<close> is not an element),
  construction succeeds and no evaluation enters the concatenation branch.
\<close>

theorem C4_unreached_skips:
  assumes "0 < in_d" "\<forall>s\<in>set skips. n \<le> s \<and> s \<noteq> 0"
  shows "\<exists>m. MLP_init ps in_d n lw od skips act oact = Inr m
           \<and> (\<forall>t. concat_log m t = [])"
proof -
  have z: "(0::int) \<notin> set skips" using assms(2) by blast
  obtain m where m: "MLP_init ps in_d n lw od skips act oact = Inr m"
    using MLP_init_ok[OF assms(1)] z by blast
  note f = MLP_init_Inr[OF m]
  have "int (fst p) \<notin> set (skip_connections m)" if "p \<in> set (enumerate 0 (layers m))" for p
  proof -
    have b: "fst p < (if 2 \<le> n then nat n else 1)"
      using enumerate_fst_bound[OF that] built_length[OF m] by simp
    show ?thesis
    proof (cases "2 \<le> n")
      case True
      then have "int (fst p) < n" using b by simp
      then show ?thesis using assms(2) f by auto
    next
      case False
      then have "fst p = 0" using b by simp
      then show ?thesis using z f by simp
    qed
  qed
  then have "\<forall>p\<in>set (enumerate 0 (layers m)). int (fst p) \<notin> set (skip_connections m)"
    by blast
  from forward_logged_no_hit[OF this] show ?thesis
    using m by (simp add: concat_log_def)
qed

theorem C4_unreached_skips_witness:
  "(0::int) < 4 \<and> (3::int) \<le> 5 \<and> (5::int) \<noteq> 0
   \<and> (\<exists>m. MLP_init unit_params 4 3 8 (Some 4) [5] (Some relu) None = Inr m
        \<and> concat_log m (zeros [5, 4]) = [])"
proof -
  have h: "(0::int) < 4" "\<forall>s\<in>set [5::int]. 3 \<le> s \<and> s \<noteq> 0" by simp_all
  from C4_unreached_skips[OF h, of unit_params 8 "Some 4" "Some relu" None]
  show ?thesis by auto
qed

text \<open>
  The claim as stated admits the element \<open>num_layers - 1\<close>, the index of the final unit.
  The loop of \<open>forward\<close> visits that index: with \<open>num_layers = 3\<close> and
  \<open>skip_connections = (2,)\<close> construction succeeds and evaluation enters the concatenation
  branch at index \<open>2\<close>.
\<close>

theorem C4_counterexample:
  "(0::int) < 4 \<and> (3::int) - 1 \<le> 2 \<and> (0::int) \<notin> set [2]
   \<and> MLP_init unit_params 4 3 8 (Some 4) [2] (Some relu) None = Inr mlp_skip_last
   \<and> concat_log mlp_skip_last (zeros [1, 4]) = [2]"
  using init_skip_last by (simp add: mlp_skip_last_def eval_defs upt_rec)

text \<open>
  Claim C5, as amended.  For every constructed instance with \<open>num_layers \<ge> 1\<close> whose
  \<open>skip_connections\<close> does not contain \<open>num_layers - 1\<close>, the index of the final unit,
  and every input tensor whose shape is any leading dimensions \<open>bs\<close> (one batch dimension,
  several, or none; a dimension may be \<open>0\<close>) followed by \<open>in_dim\<close>, evaluation returns a
  tensor of shape \<open>bs\<close> followed by \<open>out_dim\<close>.
\<close>

theorem C5_shape:
  assumes "MLP_init ps in_d n lw od skips act oact = Inr m"
    and "1 \<le> n" "n - 1 \<notin> set skips"
    and "wf_tensor t" "shape t = bs @ [nat in_d]"
  shows "\<exists>y. forward m t = Inr y \<and> shape y = bs @ [out_dim m] \<and> wf_tensor y"
  unfolding forward_def
  using forward_loop_shape[OF built_chain[OF assms(1-3)] assms(5,4,5,4)] .

theorem C5_shape_witness:
  "MLP_init unit_params 4 3 8 (Some 4) [1] (Some relu) None = Inr mlp_skip_mid
   \<and> (1::int) \<le> 3 \<and> (3::int) - 1 \<notin> set [1]
   \<and> wf_tensor (zeros [5, 4]) \<and> shape (zeros [5, 4]) = [5] @ [nat 4]
   \<and> (\<exists>y. forward mlp_skip_mid (zeros [5, 4]) = Inr y \<and> shape y = [5, 4])
   \<and> wf_tensor (zeros [2, 3, 4]) \<and> shape (zeros [2, 3, 4]) = [2, 3] @ [nat 4]
   \<and> (\<exists>y. forward mlp_skip_mid (zeros [2, 3, 4]) = Inr y \<and> shape y = [2, 3, 4])
   \<and> wf_tensor (zeros [0, 4]) \<and> shape (zeros [0, 4]) = [0] @ [nat 4]
   \<and> (\<exists>y. forward mlp_skip_mid (zeros [0, 4]) = Inr y \<and> shape y = [0, 4])"
proof -
  have h: "(1::int) \<le> 3" "(3::int) - 1 \<notin> set [1]" by simp_all
  have w1: "wf_tensor (zeros [5, 4])" "shape (zeros [5, 4]) = [5] @ [nat 4]"
    and w2: "wf_tensor (zeros [2, 3, 4])" "shape (zeros [2, 3, 4]) = [2, 3] @ [nat 4]"
    and w3: "wf_tensor (zeros [0, 4])" "shape (zeros [0, 4]) = [0] @ [nat 4]"
    by (simp_all add: zeros_def wf_tensor_def)
  have od: "out_dim mlp_skip_mid = 4" by (simp add: mlp_skip_mid_def)
  have e1: "\<exists>y. forward mlp_skip_mid (zeros [5, 4]) = Inr y \<and> shape y = [5, 4]"
    using C5_shape[OF init_skip_mid h w1] by (auto simp add: od)
  have e2: "\<exists>y. forward mlp_skip_mid (zeros [2, 3, 4]) = Inr y \<and> shape y = [2, 3, 4]"
    using C5_shape[OF init_skip_mid h w2] by (auto simp add: od)
  have e3: "\<exists>y. forward mlp_skip_mid (zeros [0, 4]) = Inr y \<and> shape y = [0, 4]"
    using C5_shape[OF init_skip_mid h w3] by (auto simp add: od)
  show ?thesis
    using init_skip_mid h w1 w2 w3 e1 e2 e3 by simp
qed

text \<open>
  The claim as stated covers every constructed instance.  With \<open>num_layers = 3\<close> and
  \<open>skip_connections = (2,)\<close> construction succeeds, and evaluation on an input of shape
  \<open>[5, 4]\<close> concatenates in front of the final unit, which declares the input width
  \<open>layer_width\<close> and is handed \<open>layer_width + in_dim\<close>: the library raises.
\<close>

theorem C5_counterexample:
  "MLP_init unit_params 4 3 8 (Some 4) [2] (Some relu) None = Inr mlp_skip_last
   \<and> wf_tensor (zeros [5, 4]) \<and> shape (zeros [5, 4]) = [5, 4]
   \<and> forward mlp_skip_last (zeros [5, 4]) = Inl ShapeError"
  using init_skip_last by (simp add: mlp_skip_last_def eval_defs upt_rec)

text \<open>
  Claim C7.  For every instance constructed with \<open>activation = None\<close> and every input,
  evaluation returns what the composition of the affine transforms of the stack returns,
  with the input concatenated at the skip indices and no element-wise transform anywhere
  (the map of a unit is affine: lemma \<open>affine_combination\<close>).
\<close>

theorem C7_no_activation:
  assumes "MLP_init ps in_d n lw od skips None oact = Inr m"
  shows "forward m t = affine_composition m t"
  using MLP_init_Inr[OF assms]
  by (simp add: forward_def affine_composition_def forward_loop_no_activation)


theorem C7_no_activation_witness:
  "MLP_init unit_params 4 2 8 (Some 3) [] None None = Inr (mlp_two_layer None)
   \<and> forward (mlp_two_layer None) (minus_ones [1, 4])
       = affine_composition (mlp_two_layer None) (minus_ones [1, 4])
   \<and> affine_composition (mlp_two_layer None) (minus_ones [1, 4])
       = Inr \<lparr>shape = [1, 3], data = [Num (- 41), Num (- 41), Num (- 41)]\<rparr>"
proof -
  have i: "MLP_init unit_params 4 2 8 (Some 3) [] None None = Inr (mlp_two_layer None)"
    using init_two_layer[of None None] by (simp add: mlp_two_layer_def)
  show ?thesis
    using i C7_no_activation[OF i, of "minus_ones [1, 4]"] fwd_two_layer_plain by simp
qed

text \<open>
  Claim C8.  Two instances constructed from the same arguments except \<open>out_activation\<close>
  each store their \<open>out_activation\<close>, have the same stack and return the same result on
  every input: \<open>forward\<close> never reads the field.
\<close>

theorem C8_out_activation_unused:
  assumes "MLP_init ps in_d n lw od skips act oa1 = Inr m1"
    and "MLP_init ps in_d n lw od skips act oa2 = Inr m2"
  shows "out_activation m1 = oa1 \<and> out_activation m2 = oa2
         \<and> layers m1 = layers m2 \<and> forward m1 t = forward m2 t"
proof -
  note f1 = MLP_init_Inr[OF assms(1)] and f2 = MLP_init_Inr[OF assms(2)]
  have "m2\<lparr>layers := []\<rparr> = (m1\<lparr>layers := []\<rparr>)\<lparr>out_activation := oa2\<rparr>"
    using f1 f2 by simp
  then have "build_nn_modules ps (m2\<lparr>layers := []\<rparr>) = build_nn_modules ps (m1\<lparr>layers := []\<rparr>)"
    by (simp only: build_nn_modules_out_activation)
  then have ls: "layers m1 = layers m2" using f1 f2 by simp
  have "forward_loop m1 t (enumerate 0 (layers m1)) t
      = forward_loop m2 t (enumerate 0 (layers m1)) t"
    using f1 f2 by (intro forward_loop_cong) simp_all
  then show ?thesis using f1 f2 ls by (simp add: forward_def)
qed

theorem C8_out_activation_unused_witness:
  "MLP_init unit_params 4 2 8 (Some 3) [] (Some relu) None
     = Inr ((mlp_two_layer (Some relu))\<lparr>out_activation := None\<rparr>)
   \<and> MLP_init unit_params 4 2 8 (Some 3) [] (Some relu) (Some relu)
     = Inr ((mlp_two_layer (Some relu))\<lparr>out_activation := Some relu\<rparr>)
   \<and> forward ((mlp_two_layer (Some relu))\<lparr>out_activation := None\<rparr>) (minus_ones [1, 4])
     = forward ((mlp_two_layer (Some relu))\<lparr>out_activation := Some relu\<rparr>) (minus_ones [1, 4])"
  using init_two_layer[of "Some relu" None] init_two_layer[of "Some relu" "Some relu"]
    C8_out_activation_unused[OF init_two_layer[of "Some relu" None]
      init_two_layer[of "Some relu" "Some relu"], of "minus_ones [1, 4]"]
  by simp

end
